theory Spec2Isabelle
  imports Main "HOL-Library.AList"
begin

section \<open>JavaScript values and objects\<close>

text \<open>
  The bridge passes JSON-like values between the native side and the host: payment
  data, configuration objects, payment method records. A value is one of the JavaScript
  primitives, an array or an object; an object is a list of key/value pairs in
  insertion order.
\<close>

datatype jsval =
    JUndefined
  | JNull
  | JBool bool
  | JNum int
  | JStr string
  | JArr "jsval list"
  | JObj "(string \<times> jsval) list"

type_synonym js_object = "(string \<times> jsval) list"

text \<open>Property access \<^verbatim>\<open>obj.key\<close>: a key that is not there reads as \<^verbatim>\<open>undefined\<close>.\<close>

definition jsget :: "js_object \<Rightarrow> string \<Rightarrow> jsval" where
  "jsget obj k = (case map_of obj k of None \<Rightarrow> JUndefined | Some v \<Rightarrow> v)"

text \<open>The nullish coalescing operator \<^verbatim>\<open>a ?? b\<close>.\<close>

definition nullish :: "jsval \<Rightarrow> bool" where
  "nullish v = (v = JUndefined \<or> v = JNull)"

definition coalesce :: "jsval \<Rightarrow> jsval \<Rightarrow> jsval" where
  "coalesce a b = (if nullish a then b else a)"

text \<open>
  The object literal \<^verbatim>\<open>{...obj, key: v}\<close>: a copy of \<^verbatim>\<open>obj\<close> in which
  \<^verbatim>\<open>key\<close> holds \<^verbatim>\<open>v\<close>; an existing key keeps its place, a new one goes to the end.
\<close>

definition spread_with :: "js_object \<Rightarrow> string \<Rightarrow> jsval \<Rightarrow> js_object" where
  "spread_with obj k v = AList.update k v obj"

section \<open>Payment method lookup\<close>

type_synonym payment_method = js_object

text \<open>
  \<^verbatim>\<open>PaymentMethodsResponse\<close>: the response of the \<^verbatim>\<open>/paymentMethods\<close> API. The
  code reads its \<^verbatim>\<open>paymentMethods\<close> array; whatever else the response carries is kept
  in \<open>otherFields\<close>.
\<close>

record paymentMethodsResponse =
  paymentMethods :: "payment_method list"
  otherFields :: js_object

text \<open>
  \<^verbatim>\<open>mapCreatedComponentType\<close>: components created as \<^verbatim>\<open>card\<close> are matched with
  payment method records of type \<^verbatim>\<open>scheme\<close>.
\<close>

definition mapCreatedComponentType :: "string \<Rightarrow> string" where
  "mapCreatedComponentType pmType = (if pmType = ''card'' then ''scheme'' else pmType)"

text \<open>
  \<^verbatim>\<open>find\<close>: \<^verbatim>\<open>paymentMethods.paymentMethods.find((pm) => pm.type === mapCreatedComponentType(typeName))\<close>.
  The strict equality holds exactly when \<^verbatim>\<open>pm.type\<close> is a string equal to the mapped name.
  \<^verbatim>\<open>Array.prototype.find\<close> returns the first match, or \<^verbatim>\<open>undefined\<close> (here \<open>None\<close>).
\<close>

definition find_pm :: "paymentMethodsResponse \<Rightarrow> string \<Rightarrow> payment_method option" where
  "find_pm pms typeName =
     List.find (\<lambda>pm. jsget pm ''type'' = JStr (mapCreatedComponentType typeName))
       (paymentMethods pms)"

section \<open>The checkout context: data\<close>

text \<open>
  \<^verbatim>\<open>Configuration\<close> is a plain object handed over by the host; the code reads
  \<^verbatim>\<open>returnUrl\<close> from it and copies it with the spread operator.
\<close>

type_synonym configuration = js_object

text \<open>
  A native module as the code sees it: an identity and the list of event names it
  declares (\<^verbatim>\<open>nativeComponent.events\<close>).
\<close>

record native_component =
  moduleName :: string
  events :: "string list"

text \<open>
  Modelled from the spec: the members of \<^verbatim>\<open>Event\<close>, declared in \<^verbatim>\<open>core/constants\<close>.
  Their values are the fixed strings of the native event vocabulary: \<^verbatim>\<open>onSubmit\<close>,
  \<^verbatim>\<open>onError\<close>, \<^verbatim>\<open>onAdditionalDetails\<close>, \<^verbatim>\<open>onComplete\<close>.
\<close>

definition Event_onSubmit :: string where
  "Event_onSubmit = ''onSubmit''"

definition Event_onError :: string where
  "Event_onError = ''onError''"

definition Event_onAdditionalDetails :: string where
  "Event_onAdditionalDetails = ''onAdditionalDetails''"

definition Event_onComplete :: string where
  "Event_onComplete = ''onComplete''"

record adyenError =
  message :: string
  errorCode :: string

text \<open>The payload of a submit event: \<^verbatim>\<open>response.paymentData\<close> and \<^verbatim>\<open>response.extra\<close>.\<close>

record submit_response =
  paymentData :: js_object
  extra :: jsval

datatype native_event =
    SubmitEvent submit_response
  | ErrorEvent adyenError
  | AdditionalDetailsEvent jsval
  | CompleteEvent jsval

record sessionResponse =
  sessionPaymentMethods :: paymentMethodsResponse
  sessionData :: js_object

text \<open>
  The props of \<^verbatim>\<open>AdyenCheckout\<close>. \<^verbatim>\<open>onError\<close> is a required prop; the three
  optional callbacks are represented by whether the host supplied them, since what
  matters to the component is whether \<^verbatim>\<open>onSubmit?.(...)\<close> calls anything.
\<close>

record props =
  config :: configuration
  paymentMethods_prop :: "paymentMethodsResponse option"
  session :: "jsval option"
  onSubmit :: bool
  onAdditionalDetails :: bool
  onComplete :: bool

text \<open>
  Everything the component does to the outside is a call: to the event emitter, to the
  native module, to the session helper or to a callback of the host. The calls are
  recorded in the order they are made.
\<close>

datatype origin = Component native_component | SessionHelper

datatype effect =
    AddListener string nat
  | Remove nat
  | Hide native_component bool
  | Open native_component paymentMethodsResponse configuration
  | CreateSession "jsval option" configuration
  | HostSubmit js_object native_component jsval
  | HostError adyenError origin
  | HostAdditionalDetails jsval native_component
  | HostComplete jsval native_component

text \<open>
  The listeners that \<^verbatim>\<open>startEventListeners\<close> registers are closures; each is
  represented by the values it captures.
\<close>

datatype listener =
    SubmitListener props configuration native_component
  | ErrorListener native_component
  | AdditionalDetailsListener props native_component
  | CompleteListener props native_component

text \<open>
  An \<^verbatim>\<open>EmitterSubscription\<close>: the object \<^verbatim>\<open>addListener\<close> returns. \<open>sid\<close> is its
  identity.
\<close>

record subscription =
  sid :: nat
  eventType :: string
  listener :: listener

text \<open>
  The state: the ref \<^verbatim>\<open>subscriptions.current\<close>, the React state
  \<^verbatim>\<open>sessionStorage\<close>, and the world outside the component, which is the listeners
  registered with the event emitter now (\<open>emitter\<close>), the supply of fresh subscription
  identities and the calls made so far.
\<close>

record world =
  subscriptions :: "subscription list"
  sessionStorage :: "sessionResponse option"
  emitter :: "subscription list"
  nextId :: nat
  trace :: "effect list"

definition init_world :: world where
  "init_world = \<lparr>subscriptions = [], sessionStorage = None, emitter = [], nextId = 0, trace = []\<rparr>"

definition call :: "effect \<Rightarrow> world \<Rightarrow> world" where
  "call e w = w\<lparr>trace := trace w @ [e]\<rparr>"

section \<open>The event emitter\<close>

text \<open>
  \<^verbatim>\<open>NativeEventEmitter\<close> belongs to the framework. \<^verbatim>\<open>addListener\<close> registers a
  listener under an event name and returns a new subscription; \<^verbatim>\<open>remove()\<close> on a
  subscription takes its listener out of the registry, and has nothing to take out when
  the listener is no longer there.
\<close>

definition addListener :: "string \<Rightarrow> listener \<Rightarrow> world \<Rightarrow> subscription \<times> world" where
  "addListener ev l w =
     (let s = \<lparr>sid = nextId w, eventType = ev, listener = l\<rparr>
      in (s, w\<lparr>emitter := emitter w @ [s], nextId := Suc (nextId w),
               trace := trace w @ [AddListener ev (nextId w)]\<rparr>))"

definition remove :: "subscription \<Rightarrow> world \<Rightarrow> world" where
  "remove s w =
     w\<lparr>emitter := filter (\<lambda>x. sid x \<noteq> sid s) (emitter w), trace := trace w @ [Remove (sid s)]\<rparr>"

section \<open>The checkout context: operations\<close>

text \<open>
  \<^verbatim>\<open>submitPayment\<close>: the payload is \<^verbatim>\<open>{...data, returnUrl: data.returnUrl ?? configuration.returnUrl}\<close>,
  passed to \<^verbatim>\<open>onSubmit\<close> if the host supplied one.
\<close>

definition submitPayment ::
  "props \<Rightarrow> configuration \<Rightarrow> js_object \<Rightarrow> native_component \<Rightarrow> jsval \<Rightarrow> world \<Rightarrow> world" where
  "submitPayment P configuration data nativeComponent ext w =
     (let payload = spread_with data ''returnUrl''
                      (coalesce (jsget data ''returnUrl'') (jsget configuration ''returnUrl''))
      in if onSubmit P then call (HostSubmit payload nativeComponent ext) w else w)"

text \<open>\<^verbatim>\<open>removeEventListeners\<close>: \<^verbatim>\<open>subscriptions.current.forEach((s) => s.remove())\<close>.\<close>

definition removeEventListeners :: "world \<Rightarrow> world" where
  "removeEventListeners w = fold remove (subscriptions w) w"

text \<open>The listener of \<^verbatim>\<open>Event.onSubmit\<close>.\<close>

definition submitListener ::
  "props \<Rightarrow> configuration \<Rightarrow> native_component \<Rightarrow> submit_response \<Rightarrow> world \<Rightarrow> world" where
  "submitListener P configuration nativeComponent response w =
     submitPayment P configuration (paymentData response) nativeComponent (extra response)
       (call (Hide nativeComponent False) w)"

text \<open>
  The listener of \<^verbatim>\<open>Event.onError\<close>. \<^verbatim>\<open>onError\<close> is a required prop, so
  \<^verbatim>\<open>onError?.(error, nativeComponent)\<close> calls it.
\<close>

definition errorListener :: "native_component \<Rightarrow> adyenError \<Rightarrow> world \<Rightarrow> world" where
  "errorListener nativeComponent err w =
     call (HostError err (Component nativeComponent))
       (if errorCode err = ''canceledByShopper'' then call (Hide nativeComponent False) w else w)"

definition additionalDetailsListener :: "props \<Rightarrow> native_component \<Rightarrow> jsval \<Rightarrow> world \<Rightarrow> world" where
  "additionalDetailsListener P nativeComponent data w =
     (if onAdditionalDetails P then call (HostAdditionalDetails data nativeComponent) w else w)"

definition completeListener :: "props \<Rightarrow> native_component \<Rightarrow> jsval \<Rightarrow> world \<Rightarrow> world" where
  "completeListener P nativeComponent data w =
     (if onComplete P then call (HostComplete data nativeComponent) w else w)"

text \<open>
  \<^verbatim>\<open>startEventListeners\<close>: two listeners always, which become the new content of
  \<^verbatim>\<open>subscriptions.current\<close>, and one more, pushed onto it, for each of the two optional
  events that the native module declares.
\<close>

definition startEventListeners :: "props \<Rightarrow> configuration \<Rightarrow> native_component \<Rightarrow> world \<Rightarrow> world" where
  "startEventListeners P configuration nativeComponent w =
     (let (s1, w1) = addListener Event_onSubmit (SubmitListener P configuration nativeComponent) w;
          (s2, w2) = addListener Event_onError (ErrorListener nativeComponent) w1;
          w3 = w2\<lparr>subscriptions := [s1, s2]\<rparr>;
          w4 = (if Event_onAdditionalDetails \<in> set (events nativeComponent)
                then (let (s3, w') = addListener Event_onAdditionalDetails
                                       (AdditionalDetailsListener P nativeComponent) w3
                      in w'\<lparr>subscriptions := subscriptions w' @ [s3]\<rparr>)
                else w3)
      in if Event_onComplete \<in> set (events nativeComponent)
         then (let (s4, w') = addListener Event_onComplete (CompleteListener P nativeComponent) w4
               in w'\<lparr>subscriptions := subscriptions w' @ [s4]\<rparr>)
         else w4)"

text \<open>
  \<^verbatim>\<open>start\<close> calls three functions of the package whose code is in other modules
  (\<^verbatim>\<open>core/utils\<close>, \<^verbatim>\<open>getNativeComponent\<close>). Each either returns or throws; they are
  parameters of the model.
\<close>

datatype error =
    ConfigurationError string
  | NoPaymentMethodsError
  | ComponentError string

record helpers =
  checkPaymentMethodsResponse :: "paymentMethodsResponse option \<Rightarrow> error + paymentMethodsResponse"
  getNativeComponent ::
    "string \<Rightarrow> paymentMethodsResponse \<Rightarrow> error + (native_component \<times> payment_method option)"
  checkConfiguration :: "configuration \<Rightarrow> error + unit"

text \<open>The configuration of the single-method branch: \<^verbatim>\<open>{...config, dropin: {skipListWhenSinglePaymentMethod: true}}\<close>.\<close>

definition singlePaymentConfig :: "configuration \<Rightarrow> configuration" where
  "singlePaymentConfig cfg =
     spread_with cfg ''dropin'' (JObj [(''skipListWhenSinglePaymentMethod'', JBool True)])"

text \<open>The catalog of the single-method branch: \<^verbatim>\<open>{paymentMethods: [paymentMethod]}\<close>.\<close>

definition singlePaymentMethods :: "payment_method \<Rightarrow> paymentMethodsResponse" where
  "singlePaymentMethods pm = \<lparr>paymentMethods = [pm], otherFields = []\<rparr>"

text \<open>
  \<^verbatim>\<open>paymentMethods ?? sessionStorage?.paymentMethods\<close>: the catalog given as a prop,
  else the one of the stored session, else \<^verbatim>\<open>undefined\<close>.
\<close>

definition contextPaymentMethods :: "props \<Rightarrow> world \<Rightarrow> paymentMethodsResponse option" where
  "contextPaymentMethods P w =
     (case paymentMethods_prop P of
        Some pms \<Rightarrow> Some pms
      | None \<Rightarrow> map_option sessionPaymentMethods (sessionStorage w))"

text \<open>
  \<^verbatim>\<open>start\<close>. An exception thrown by one of the three functions leaves \<^verbatim>\<open>start\<close> at
  that point and reaches its caller (\<open>Inl\<close>); what was done before stays done.
\<close>

definition start :: "helpers \<Rightarrow> props \<Rightarrow> string \<Rightarrow> world \<Rightarrow> (error + unit) \<times> world" where
  "start H P typeName w =
     (let w1 = removeEventListeners w
      in case checkPaymentMethodsResponse H (contextPaymentMethods P w1) of
           Inl e \<Rightarrow> (Inl e, w1)
         | Inr currentPaymentMethods \<Rightarrow>
             (case getNativeComponent H typeName currentPaymentMethods of
                Inl e \<Rightarrow> (Inl e, w1)
              | Inr (nativeComponent, paymentMethod) \<Rightarrow>
                  (case checkConfiguration H (config P) of
                     Inl e \<Rightarrow> (Inl e, w1)
                   | Inr _ \<Rightarrow>
                       (let w2 = startEventListeners P (config P) nativeComponent w1
                        in case paymentMethod of
                             Some pm \<Rightarrow>
                               (Inr (), call (Open nativeComponent (singlePaymentMethods pm)
                                                (singlePaymentConfig (config P))) w2)
                           | None \<Rightarrow>
                               (Inr (), call (Open nativeComponent currentPaymentMethods
                                                (config P)) w2)))))"

text \<open>
  \<^verbatim>\<open>createSession\<close>. The promise of \<^verbatim>\<open>SessionHelper.createSession\<close> settles once:
  \<open>Inr\<close> is the session response it resolves with, \<open>Inl\<close> the value it rejects with.
  \<^verbatim>\<open>JSON.stringify\<close> is the runtime's; it is a parameter.
\<close>

definition createSession ::
  "(jsval \<Rightarrow> string) \<Rightarrow> props \<Rightarrow> jsval + sessionResponse \<Rightarrow> world \<Rightarrow> world" where
  "createSession stringify P outcome w =
     (let w1 = call (CreateSession (session P) (config P)) w
      in case outcome of
           Inr sessionResponse \<Rightarrow> w1\<lparr>sessionStorage := Some sessionResponse\<rparr>
         | Inl e \<Rightarrow>
             call (HostError \<lparr>message = stringify e, errorCode = ''sessionError''\<rparr> SessionHelper) w1)"

section \<open>Delivery of native events\<close>

text \<open>
  The emitter calls every listener registered under the name of the event, in the order
  of registration. A listener is only ever registered under the name of its own event.
\<close>

fun event_name :: "native_event \<Rightarrow> string" where
  "event_name (SubmitEvent _) = Event_onSubmit"
| "event_name (ErrorEvent _) = Event_onError"
| "event_name (AdditionalDetailsEvent _) = Event_onAdditionalDetails"
| "event_name (CompleteEvent _) = Event_onComplete"

fun run_listener :: "listener \<Rightarrow> native_event \<Rightarrow> world \<Rightarrow> world" where
  "run_listener (SubmitListener P cfg nc) (SubmitEvent r) w = submitListener P cfg nc r w"
| "run_listener (ErrorListener nc) (ErrorEvent e) w = errorListener nc e w"
| "run_listener (AdditionalDetailsListener P nc) (AdditionalDetailsEvent d) w =
     additionalDetailsListener P nc d w"
| "run_listener (CompleteListener P nc) (CompleteEvent d) w = completeListener P nc d w"
| "run_listener _ _ w = w"

definition handlers_for :: "native_event \<Rightarrow> world \<Rightarrow> subscription list" where
  "handlers_for ev w = filter (\<lambda>s. eventType s = event_name ev) (emitter w)"

definition emit :: "native_event \<Rightarrow> world \<Rightarrow> world" where
  "emit ev w = fold (\<lambda>s. run_listener (listener s) ev) (handlers_for ev w) w"

section \<open>Functions of the package outside the two modules\<close>

text \<open>
  Modelled from the spec: \<^verbatim>\<open>checkConfiguration\<close> (\<^verbatim>\<open>core/utils\<close>), the configuration
  validator. It checks that the mandatory fields, client key and environment, are
  present, and fails with a configuration error naming the missing field.
\<close>

definition mandatory_fields :: "string list" where
  "mandatory_fields = [''clientKey'', ''environment'']"

definition checkConfiguration_spec :: "configuration \<Rightarrow> error + unit" where
  "checkConfiguration_spec cfg =
     (case filter (\<lambda>f. jsget cfg f = JUndefined) mandatory_fields of
        [] \<Rightarrow> Inr ()
      | f # _ \<Rightarrow> Inl (ConfigurationError f))"

text \<open>
  Modelled from the spec: \<^verbatim>\<open>checkPaymentMethodsResponse\<close> (\<^verbatim>\<open>core/utils\<close>), step 2
  of the start sequence. It fails with a structured error if no catalog is available or
  the catalog is empty, and returns the catalog otherwise.
\<close>

definition checkPaymentMethodsResponse_spec ::
  "paymentMethodsResponse option \<Rightarrow> error + paymentMethodsResponse" where
  "checkPaymentMethodsResponse_spec r =
     (case r of
        None \<Rightarrow> Inl NoPaymentMethodsError
      | Some pms \<Rightarrow> if paymentMethods pms = [] then Inl NoPaymentMethodsError else Inr pms)"

text \<open>
  Modelled from the spec: \<^verbatim>\<open>getNativeComponent\<close>, step 3 of the start sequence. It
  resolves the record with the payment method resolver, and absence is not fatal. Which
  native module serves a type name is decided by a table outside these modules: the
  module is the parameter \<open>nc\<close>.
\<close>

definition getNativeComponent_spec ::
  "native_component \<Rightarrow> string \<Rightarrow> paymentMethodsResponse
     \<Rightarrow> error + (native_component \<times> payment_method option)" where
  "getNativeComponent_spec nc typeName pms = Inr (nc, find_pm pms typeName)"

definition spec_helpers :: "native_component \<Rightarrow> helpers" where
  "spec_helpers nc =
     \<lparr>checkPaymentMethodsResponse = checkPaymentMethodsResponse_spec,
      getNativeComponent = getNativeComponent_spec nc,
      checkConfiguration = checkConfiguration_spec\<rparr>"

section \<open>The instant payment fragment\<close>

text \<open>\<^verbatim>\<open>InstantViewState\<close>, the states the view model sends to the fragment.\<close>

datatype InstantViewState = Error string | Loading | ShowComponent

text \<open>The three widgets of \<^verbatim>\<open>FragmentInstantBinding\<close> that \<^verbatim>\<open>onViewState\<close> sets.\<close>

record fragmentInstantBinding =
  errorView_isVisible :: bool
  errorView_text :: string
  progressIndicator_isVisible :: bool
  componentContainer_isVisible :: bool

datatype kotlin_exception = IllegalArgumentException

text \<open>
  The property \<^verbatim>\<open>binding\<close>: \<^verbatim>\<open>requireNotNull(_binding)\<close>. \<^verbatim>\<open>_binding\<close> is set in
  \<^verbatim>\<open>onCreateView\<close> and cleared in \<^verbatim>\<open>onDestroyView\<close>.
\<close>

definition binding ::
  "fragmentInstantBinding option \<Rightarrow> kotlin_exception + fragmentInstantBinding" where
  "binding b = (case b of None \<Rightarrow> Inl IllegalArgumentException | Some x \<Rightarrow> Inr x)"

text \<open>\<^verbatim>\<open>onViewState\<close>, on the fragment's \<^verbatim>\<open>_binding\<close>; it returns the widgets as set.\<close>

definition onViewState ::
  "fragmentInstantBinding option \<Rightarrow> InstantViewState
     \<Rightarrow> kotlin_exception + fragmentInstantBinding" where
  "onViewState b viewState =
     (case binding b of
        Inl e \<Rightarrow> Inl e
      | Inr x \<Rightarrow>
          Inr (case viewState of
                 Error errorMessage \<Rightarrow>
                   x\<lparr>errorView_isVisible := True, errorView_text := errorMessage,
                     progressIndicator_isVisible := False, componentContainer_isVisible := False\<rparr>
               | Loading \<Rightarrow>
                   x\<lparr>progressIndicator_isVisible := True, errorView_isVisible := False,
                     componentContainer_isVisible := False\<rparr>
               | ShowComponent \<Rightarrow>
                   x\<lparr>progressIndicator_isVisible := False, errorView_isVisible := False,
                     componentContainer_isVisible := True\<rparr>))"

section \<open>Observations\<close>

text \<open>The calls made between two states of one run.\<close>

definition calls_since :: "world \<Rightarrow> world \<Rightarrow> effect list" where
  "calls_since w w' = drop (length (trace w)) (trace w')"

fun is_Open :: "effect \<Rightarrow> bool" where
  "is_Open (Open _ _ _) = True"
| "is_Open _ = False"

text \<open>
  The invariant of the component: every listener it has registered with the emitter is
  held in \<^verbatim>\<open>subscriptions.current\<close>, and the subscriptions held there are older than
  any subscription the emitter will create.
\<close>

definition tracked :: "world \<Rightarrow> bool" where
  "tracked w = (set (emitter w) \<subseteq> set (subscriptions w)
                \<and> (\<forall>s \<in> set (subscriptions w). sid s < nextId w))"

text \<open>
  The subscriptions that one call of \<^verbatim>\<open>startEventListeners\<close> creates when the next
  fresh identity is \<open>n\<close>.
\<close>

definition new_subscriptions ::
  "props \<Rightarrow> configuration \<Rightarrow> native_component \<Rightarrow> nat \<Rightarrow> subscription list" where
  "new_subscriptions P cfg nc n =
     [\<lparr>sid = n, eventType = Event_onSubmit, listener = SubmitListener P cfg nc\<rparr>,
      \<lparr>sid = Suc n, eventType = Event_onError, listener = ErrorListener nc\<rparr>]
     @ (if Event_onAdditionalDetails \<in> set (events nc)
        then [\<lparr>sid = Suc (Suc n), eventType = Event_onAdditionalDetails,
               listener = AdditionalDetailsListener P nc\<rparr>] else [])
     @ (if Event_onComplete \<in> set (events nc)
        then [\<lparr>sid = (if Event_onAdditionalDetails \<in> set (events nc)
                      then Suc (Suc (Suc n)) else Suc (Suc n)),
               eventType = Event_onComplete, listener = CompleteListener P nc\<rparr>] else [])"

section \<open>Example values\<close>

definition example_component :: native_component where
  "example_component =
     \<lparr>moduleName = ''AdyenDropIn'', events = [''onSubmit'', ''onError'', ''onAdditionalDetails'']\<rparr>"

definition example_config :: configuration where
  "example_config =
     [(''clientKey'', JStr ''test_key''), (''environment'', JStr ''test''),
      (''returnUrl'', JStr ''myapp://payment''),
      (''dropin'', JObj [(''showPreselectedStoredPaymentMethod'', JBool False)])]"

definition example_config_no_environment :: configuration where
  "example_config_no_environment =
     [(''clientKey'', JStr ''test_key''), (''returnUrl'', JStr ''myapp://payment'')]"

definition scheme_record :: payment_method where
  "scheme_record = [(''type'', JStr ''scheme''), (''name'', JStr ''Cards'')]"

definition ideal_record :: payment_method where
  "ideal_record = [(''type'', JStr ''ideal'')]"

definition example_catalog :: paymentMethodsResponse where
  "example_catalog = \<lparr>paymentMethods = [ideal_record, scheme_record], otherFields = []\<rparr>"

definition example_props :: props where
  "example_props =
     \<lparr>config = example_config, paymentMethods_prop = Some example_catalog, session = None,
      onSubmit = True, onAdditionalDetails = True, onComplete = False\<rparr>"

definition example_props_no_environment :: props where
  "example_props_no_environment = example_props\<lparr>config := example_config_no_environment\<rparr>"

definition example_props_no_catalog :: props where
  "example_props_no_catalog = example_props_no_environment\<lparr>paymentMethods_prop := None\<rparr>"

definition example_error :: adyenError where
  "example_error = \<lparr>message = ''Payment was cancelled'', errorCode = ''canceledByShopper''\<rparr>"

definition example_binding :: fragmentInstantBinding where
  "example_binding =
     \<lparr>errorView_isVisible = False, errorView_text = [], progressIndicator_isVisible = True,
      componentContainer_isVisible = False\<rparr>"

text \<open>The component after one start, and after a second one.\<close>

definition example_started :: world where
  "example_started = snd (start (spec_helpers example_component) example_props ''card'' init_world)"

definition example_restarted :: world where
  "example_restarted =
     snd (start (spec_helpers example_component) example_props ''ideal'' example_started)"

definition example_response :: submit_response where
  "example_response =
     \<lparr>paymentData = [(''paymentMethod'', JObj [(''type'', JStr ''scheme'')])], extra = JNull\<rparr>"

section \<open>Properties of the payment method resolver\<close>

lemma find_pm_Some:
  "find_pm c t = Some r \<Longrightarrow>
     r \<in> set (paymentMethods c) \<and> jsget r ''type'' = JStr (mapCreatedComponentType t)"
  unfolding find_pm_def by (auto simp: find_Some_iff)

lemma find_pm_None:
  "(find_pm c t = None) =
     (\<forall>pm \<in> set (paymentMethods c). jsget pm ''type'' \<noteq> JStr (mapCreatedComponentType t))"
  unfolding find_pm_def by (auto simp: find_None_iff)

section \<open>Objects\<close>

lemma jsget_spread_with:
  "jsget (spread_with obj k v) k' = (if k' = k then v else jsget obj k')"
  by (simp add: jsget_def spread_with_def update_conv')

lemma keys_spread_with:
  "map fst (spread_with obj k v) =
     (if k \<in> fst ` set obj then map fst obj else map fst obj @ [k])"
  by (simp add: spread_with_def update_keys dom_map_of_conv_image_fst)

section \<open>The emitter and the subscriptions\<close>

lemma calls_since_append [simp]:
  "trace w' = trace w @ xs \<Longrightarrow> calls_since w w' = xs"
  by (simp add: calls_since_def)

lemma fold_remove:
  "fold remove xs w =
     w\<lparr>emitter := filter (\<lambda>x. sid x \<notin> sid ` set xs) (emitter w),
       trace := trace w @ map (\<lambda>s. Remove (sid s)) xs\<rparr>"
proof (induction xs arbitrary: w)
  case Nil
  then show ?case by simp
next
  case (Cons a xs)
  have "filter (\<lambda>x. sid x \<notin> sid ` set xs) (filter (\<lambda>x. sid x \<noteq> sid a) (emitter w))
        = filter (\<lambda>x. sid x \<notin> sid ` set (a # xs)) (emitter w)"
    by (induction "emitter w") (auto intro: filter_cong)
  with Cons show ?case by (simp add: remove_def)
qed

lemma removeEventListeners_eq:
  "removeEventListeners w =
     w\<lparr>emitter := filter (\<lambda>x. sid x \<notin> sid ` set (subscriptions w)) (emitter w),
       trace := trace w @ map (\<lambda>s. Remove (sid s)) (subscriptions w)\<rparr>"
  by (simp add: removeEventListeners_def fold_remove)

lemma removeEventListeners_tracked:
  "tracked w \<Longrightarrow> emitter (removeEventListeners w) = []"
  by (auto simp: removeEventListeners_eq tracked_def filter_empty_conv)

lemma new_subscriptions_sid:
  "s \<in> set (new_subscriptions P cfg nc n) \<Longrightarrow>
     n \<le> sid s \<and> sid s < n + length (new_subscriptions P cfg nc n)"
  by (auto simp: new_subscriptions_def split: if_splits)

lemma new_subscriptions_submit:
  "filter (\<lambda>s. eventType s = Event_onSubmit) (new_subscriptions P cfg nc n) =
     [\<lparr>sid = n, eventType = Event_onSubmit, listener = SubmitListener P cfg nc\<rparr>]"
  by (simp add: new_subscriptions_def Event_onSubmit_def Event_onError_def
      Event_onAdditionalDetails_def Event_onComplete_def)

lemma new_subscriptions_not_Nil: "new_subscriptions P cfg nc n \<noteq> []"
  by (simp add: new_subscriptions_def)

lemma startEventListeners_eq:
  "startEventListeners P cfg nc w =
     w\<lparr>subscriptions := new_subscriptions P cfg nc (nextId w),
       emitter := emitter w @ new_subscriptions P cfg nc (nextId w),
       nextId := nextId w + length (new_subscriptions P cfg nc (nextId w)),
       trace := trace w @ map (\<lambda>s. AddListener (eventType s) (sid s))
                              (new_subscriptions P cfg nc (nextId w))\<rparr>"
  by (simp add: startEventListeners_def addListener_def new_subscriptions_def Let_def)

lemma filter_is_Open_map_Remove [simp]: "filter is_Open (map (\<lambda>s. Remove (sid s)) xs) = []"
  by (induction xs) simp_all

lemma filter_is_Open_map_AddListener [simp]:
  "filter is_Open (map (\<lambda>s. AddListener (eventType s) (sid s)) xs) = []"
  by (induction xs) simp_all

section \<open>The start sequence\<close>

text \<open>
  An aborted start has done its first step and nothing else; a start that passes the three
  checks goes on to register the listeners and to open the native module.
\<close>

lemma start_Inl:
  "start H P t w = (Inl e, w') \<Longrightarrow> w' = removeEventListeners w"
  by (auto simp: start_def Let_def split: sum.splits option.splits prod.splits)

lemma start_Inr:
  "start H P t w = (Inr u, w') \<Longrightarrow>
     \<exists>cur nc pmo.
        checkPaymentMethodsResponse H (contextPaymentMethods P w) = Inr cur
      \<and> getNativeComponent H t cur = Inr (nc, pmo)
      \<and> checkConfiguration H (config P) = Inr ()
      \<and> w' = call (case pmo of
                     Some pm \<Rightarrow> Open nc (singlePaymentMethods pm) (singlePaymentConfig (config P))
                   | None \<Rightarrow> Open nc cur (config P))
                (startEventListeners P (config P) nc (removeEventListeners w))"
  by (auto simp: start_def Let_def contextPaymentMethods_def removeEventListeners_eq
           split: sum.splits option.splits prod.splits)

lemma start_preflight:
  assumes "checkPaymentMethodsResponse H (contextPaymentMethods P w) = Inr cur"
      and "getNativeComponent H t cur = Inr (nc, pmo)"
      and "checkConfiguration H (config P) = Inr ()"
  shows "start H P t w =
           (Inr (), call (case pmo of
                            Some pm \<Rightarrow> Open nc (singlePaymentMethods pm) (singlePaymentConfig (config P))
                          | None \<Rightarrow> Open nc cur (config P))
                      (startEventListeners P (config P) nc (removeEventListeners w)))"
  using assms
  by (simp add: start_def Let_def contextPaymentMethods_def removeEventListeners_eq
           split: option.splits)

lemma start_preflight_calls:
  assumes "checkPaymentMethodsResponse H (contextPaymentMethods P w) = Inr cur"
      and "getNativeComponent H t cur = Inr (nc, pmo)"
      and "checkConfiguration H (config P) = Inr ()"
  shows "calls_since w (snd (start H P t w)) =
           map (\<lambda>s. Remove (sid s)) (subscriptions w)
           @ map (\<lambda>s. AddListener (eventType s) (sid s)) (new_subscriptions P (config P) nc (nextId w))
           @ [case pmo of
                Some pm \<Rightarrow> Open nc (singlePaymentMethods pm) (singlePaymentConfig (config P))
              | None \<Rightarrow> Open nc cur (config P)]"
  by (rule calls_since_append)
     (simp add: start_preflight [OF assms] call_def startEventListeners_eq removeEventListeners_eq)

lemma start_releases_first:
  assumes "start H P t w = (r, w')"
  shows "take (length (subscriptions w)) (calls_since w w') =
           map (\<lambda>s. Remove (sid s)) (subscriptions w)"
proof (cases r)
  case (Inl e)
  with assms have "w' = removeEventListeners w" by (auto dest: start_Inl)
  then have "calls_since w w' = map (\<lambda>s. Remove (sid s)) (subscriptions w)"
    by (intro calls_since_append) (simp add: removeEventListeners_eq)
  then show ?thesis by simp
next
  case (Inr u)
  with assms obtain cur nc pmo where
    "checkPaymentMethodsResponse H (contextPaymentMethods P w) = Inr cur"
    "getNativeComponent H t cur = Inr (nc, pmo)"
    "checkConfiguration H (config P) = Inr ()"
    by (auto dest: start_Inr)
  from start_preflight_calls [OF this] assms show ?thesis by simp
qed

text \<open>
  The invariant holds when the component is mounted, and every operation keeps it.
\<close>

lemma tracked_init_world: "tracked init_world"
  by (simp add: tracked_def init_world_def)

lemma tracked_removeEventListeners: "tracked w \<Longrightarrow> tracked (removeEventListeners w)"
  by (auto simp: tracked_def removeEventListeners_eq)

lemma tracked_createSession: "tracked w \<Longrightarrow> tracked (createSession str P outcome w)"
  by (auto simp: tracked_def createSession_def call_def Let_def split: sum.splits)

lemma run_listener_frame:
  "subscriptions (run_listener l ev w) = subscriptions w
   \<and> emitter (run_listener l ev w) = emitter w
   \<and> nextId (run_listener l ev w) = nextId w"
  by (cases "(l, ev, w)" rule: run_listener.cases)
     (simp_all add: submitListener_def submitPayment_def errorListener_def
        additionalDetailsListener_def completeListener_def call_def Let_def)

lemma fold_run_listener_frame:
  "subscriptions (fold (\<lambda>s. run_listener (listener s) ev) xs w) = subscriptions w
   \<and> emitter (fold (\<lambda>s. run_listener (listener s) ev) xs w) = emitter w
   \<and> nextId (fold (\<lambda>s. run_listener (listener s) ev) xs w) = nextId w"
  by (induction xs arbitrary: w) (simp_all add: run_listener_frame)

lemma tracked_emit: "tracked w \<Longrightarrow> tracked (emit ev w)"
  by (simp add: tracked_def emit_def fold_run_listener_frame)

lemma start_tracked:
  assumes "tracked w" and "start H P t w = (r, w')"
  shows "tracked w' \<and> nextId w \<le> nextId w'
       \<and> (r = Inr () \<longrightarrow> emitter w' = subscriptions w' \<and> subscriptions w' \<noteq> []
           \<and> (\<forall>s \<in> set (subscriptions w'). nextId w \<le> sid s)
           \<and> length (filter (\<lambda>s. eventType s = Event_onSubmit) (emitter w')) = 1)
       \<and> (r \<noteq> Inr () \<longrightarrow> emitter w' = [] \<and> subscriptions w' = subscriptions w)"
proof -
  let ?w1 = "removeEventListeners w"
  have e1: "emitter ?w1 = []" using assms(1) by (rule removeEventListeners_tracked)
  have s1: "subscriptions ?w1 = subscriptions w" "nextId ?w1 = nextId w"
    by (simp_all add: removeEventListeners_eq)
  show ?thesis
  proof (cases r)
    case (Inl e)
    with assms(2) have w': "w' = ?w1" by (auto dest: start_Inl)
    have "tracked w'" using assms(1) e1 s1 by (simp add: w' tracked_def)
    then show ?thesis using Inl e1 s1 by (simp add: w')
  next
    case (Inr u)
    with assms(2) obtain nc ef where
      w': "w' = call ef (startEventListeners P (config P) nc ?w1)"
      by (auto dest: start_Inr)
    have sub: "subscriptions w' = new_subscriptions P (config P) nc (nextId w)"
      and em: "emitter w' = new_subscriptions P (config P) nc (nextId w)"
      and nx: "nextId w' = nextId w + length (new_subscriptions P (config P) nc (nextId w))"
      using e1 s1 by (simp_all add: w' call_def startEventListeners_eq)
    have t: "tracked w'"
      using new_subscriptions_sid [of _ P "config P" nc "nextId w"]
      by (auto simp: tracked_def sub em nx)
    have "\<forall>s \<in> set (subscriptions w'). nextId w \<le> sid s"
      using new_subscriptions_sid [of _ P "config P" nc "nextId w"]
      by (auto simp: sub)
    with t Inr show ?thesis
      by (simp add: sub em nx new_subscriptions_not_Nil new_subscriptions_submit)
  qed
qed

text \<open>
  After a start that went through, an error event reaches the error listener of the
  started module and a submit event its submit listener, and no other listener.
\<close>

lemma emit_after_start:
  assumes "tracked w" and "start H P t w = (Inr (), w')"
  shows "\<exists>nc. emit (ErrorEvent e) w' = errorListener nc e w'
            \<and> emit (SubmitEvent r) w' = submitListener P (config P) nc r w'"
proof -
  from assms(2) obtain nc ef where
    w': "w' = call ef (startEventListeners P (config P) nc (removeEventListeners w))"
    by (auto dest: start_Inr)
  have "emitter (removeEventListeners w) = []"
    using assms(1) by (rule removeEventListeners_tracked)
  then have em: "emitter w' = new_subscriptions P (config P) nc (nextId w)"
    by (simp add: w' call_def startEventListeners_eq removeEventListeners_eq)
  have "handlers_for (ErrorEvent e) w' =
          [\<lparr>sid = Suc (nextId w), eventType = Event_onError, listener = ErrorListener nc\<rparr>]"
    by (simp add: handlers_for_def em new_subscriptions_def Event_onSubmit_def Event_onError_def
          Event_onAdditionalDetails_def Event_onComplete_def)
  then have 1: "emit (ErrorEvent e) w' = errorListener nc e w'"
    by (simp add: emit_def)
  have "handlers_for (SubmitEvent r) w' =
          [\<lparr>sid = nextId w, eventType = Event_onSubmit,
            listener = SubmitListener P (config P) nc\<rparr>]"
    by (simp add: handlers_for_def em new_subscriptions_submit)
  then have 2: "emit (SubmitEvent r) w' = submitListener P (config P) nc r w'"
    by (simp add: emit_def)
  from 1 2 show ?thesis by blast
qed

section \<open>The examples\<close>

lemma example_check_catalog:
  "checkPaymentMethodsResponse (spec_helpers example_component)
     (contextPaymentMethods example_props w) = Inr example_catalog"
  by (simp add: spec_helpers_def contextPaymentMethods_def example_props_def
        checkPaymentMethodsResponse_spec_def example_catalog_def)

lemma example_component_lookup:
  "getNativeComponent (spec_helpers example_component) t example_catalog =
     Inr (example_component, find_pm example_catalog t)"
  by (simp add: spec_helpers_def getNativeComponent_spec_def)

lemma example_check_configuration:
  "checkConfiguration (spec_helpers example_component) (config example_props) = Inr ()"
  by (simp add: spec_helpers_def checkConfiguration_spec_def example_props_def
        example_config_def mandatory_fields_def jsget_def)

lemma example_no_environment_check_catalog:
  "checkPaymentMethodsResponse (spec_helpers example_component)
     (contextPaymentMethods example_props_no_environment w) = Inr example_catalog"
  by (simp add: spec_helpers_def contextPaymentMethods_def example_props_def
        example_props_no_environment_def checkPaymentMethodsResponse_spec_def
        example_catalog_def)

lemma removeEventListeners_init_world: "removeEventListeners init_world = init_world"
  by (simp add: removeEventListeners_eq init_world_def)

lemma example_no_environment_start:
  "start (spec_helpers example_component) example_props_no_environment ''card'' init_world =
     (Inl (ConfigurationError ''environment''), init_world)"
proof -
  have "checkConfiguration_spec (config example_props_no_environment)
          = Inl (ConfigurationError ''environment'')"
    by (simp add: checkConfiguration_spec_def example_props_no_environment_def
          example_config_no_environment_def jsget_def mandatory_fields_def)
  then show ?thesis
    using example_no_environment_check_catalog [of init_world]
    by (simp add: start_def Let_def removeEventListeners_init_world spec_helpers_def
          getNativeComponent_spec_def)
qed

lemma example_find:
  "find_pm example_catalog ''card'' = Some scheme_record"
  "find_pm example_catalog ''ideal'' = Some ideal_record"
  "find_pm example_catalog ''unknown_type'' = None"
  by (simp_all add: find_pm_def example_catalog_def mapCreatedComponentType_def jsget_def
        scheme_record_def ideal_record_def)

lemma example_start:
  "start (spec_helpers example_component) example_props ''card'' init_world =
     (Inr (), example_started)"
  by (simp add: example_started_def
        start_preflight [OF example_check_catalog example_component_lookup
          example_check_configuration])

lemma example_restart:
  "start (spec_helpers example_component) example_props ''ideal'' example_started =
     (Inr (), example_restarted)"
  by (simp add: example_restarted_def
        start_preflight [OF example_check_catalog example_component_lookup
          example_check_configuration])

lemma example_started_subscriptions:
  "map sid (subscriptions example_started) = [0, 1, 2]"
proof -
  have "subscriptions example_started =
          new_subscriptions example_props (config example_props) example_component 0"
    by (simp add: example_started_def
        start_preflight [OF example_check_catalog example_component_lookup
          example_check_configuration]
        call_def startEventListeners_eq removeEventListeners_eq init_world_def)
  then show ?thesis
    by (simp add: new_subscriptions_def example_component_def Event_onAdditionalDetails_def
        Event_onComplete_def)
qed

section \<open>Configuration errors\<close>

text \<open>
  Claim C1, as amended. For every configuration missing a mandatory field, \<open>start\<close>
  does not invoke the native open operation and registers no listener: the calls of the
  run are the \<^verbatim>\<open>remove()\<close> calls of its first step and nothing else, so the error
  callback of the host is not called either. The run ends with an exception that reaches
  the caller of \<open>start\<close>. The exception is the configuration error, naming a missing
  mandatory field, whenever the catalog check and the component lookup, which run before
  the validation, have succeeded.
\<close>

theorem start_configuration_error:
  assumes "f \<in> set mandatory_fields" and "jsget (config P) f = JUndefined"
      and "checkConfiguration H = checkConfiguration_spec"
  shows "(\<exists>e. fst (start H P t w) = Inl e)
       \<and> snd (start H P t w) = removeEventListeners w
       \<and> calls_since w (snd (start H P t w)) = map (\<lambda>s. Remove (sid s)) (subscriptions w)
       \<and> filter is_Open (calls_since w (snd (start H P t w))) = []
       \<and> (\<forall>cur x. checkPaymentMethodsResponse H (contextPaymentMethods P w) = Inr cur
                 \<and> getNativeComponent H t cur = Inr x \<longrightarrow>
            (\<exists>f' \<in> set mandatory_fields. jsget (config P) f' = JUndefined
               \<and> fst (start H P t w) = Inl (ConfigurationError f')))"
proof -
  from assms(1,2) have "filter (\<lambda>f. jsget (config P) f = JUndefined) mandatory_fields \<noteq> []"
    by (auto simp: filter_empty_conv)
  then obtain f' fs where
    fs: "filter (\<lambda>f. jsget (config P) f = JUndefined) mandatory_fields = f' # fs"
    by (cases "filter (\<lambda>f. jsget (config P) f = JUndefined) mandatory_fields") auto
  then have "f' \<in> set (filter (\<lambda>f. jsget (config P) f = JUndefined) mandatory_fields)"
    by simp
  then have f': "f' \<in> set mandatory_fields" "jsget (config P) f' = JUndefined" by simp_all
  have chk: "checkConfiguration H (config P) = Inl (ConfigurationError f')"
    by (simp add: assms(3) checkConfiguration_spec_def fs)
  have res: "(\<exists>e. start H P t w = (Inl e, removeEventListeners w))"
    using chk
    by (auto simp: start_def Let_def contextPaymentMethods_def removeEventListeners_eq
             split: sum.splits option.splits prod.splits)
  have cfg: "\<forall>cur x. checkPaymentMethodsResponse H (contextPaymentMethods P w) = Inr cur
                 \<and> getNativeComponent H t cur = Inr x \<longrightarrow>
               fst (start H P t w) = Inl (ConfigurationError f')"
    using chk
    by (auto simp: start_def Let_def contextPaymentMethods_def removeEventListeners_eq
             split: sum.splits option.splits prod.splits)
  from res obtain e where e: "start H P t w = (Inl e, removeEventListeners w)" by blast
  have "calls_since w (removeEventListeners w) = map (\<lambda>s. Remove (sid s)) (subscriptions w)"
    by (rule calls_since_append) (simp add: removeEventListeners_eq)
  with e cfg f' show ?thesis by auto
qed

text \<open>
  With the example catalog and a configuration without \<^verbatim>\<open>environment\<close>, the start
  ends with the configuration error for that field and has made no call.
\<close>

theorem start_configuration_error_witness:
  "''environment'' \<in> set mandatory_fields
   \<and> jsget (config example_props_no_environment) ''environment'' = JUndefined
   \<and> fst (start (spec_helpers example_component) example_props_no_environment ''card'' init_world)
       = Inl (ConfigurationError ''environment'')
   \<and> snd (start (spec_helpers example_component) example_props_no_environment ''card'' init_world)
       = init_world
   \<and> filter is_Open (calls_since init_world
        (snd (start (spec_helpers example_component) example_props_no_environment ''card''
               init_world))) = []"
proof -
  have 1: "''environment'' \<in> set mandatory_fields"
    by (simp add: mandatory_fields_def)
  have 2: "jsget (config example_props_no_environment) ''environment'' = JUndefined"
    by (simp add: example_props_no_environment_def example_config_no_environment_def jsget_def)
  have 3: "checkConfiguration (spec_helpers example_component) = checkConfiguration_spec"
    by (simp add: spec_helpers_def)
  note t = start_configuration_error [OF 1 2 3, of "''card''" init_world]
  from t example_no_environment_check_catalog [of init_world]
       example_component_lookup [of "''card''"]
  obtain f' where
    "fst (start (spec_helpers example_component) example_props_no_environment ''card'' init_world)
       = Inl (ConfigurationError f')"
    by blast
  with t 1 2 show ?thesis by (simp add: example_no_environment_start)
qed

text \<open>
  Claim C1 as stated fails on a configuration without \<^verbatim>\<open>environment\<close>. Where neither a
  catalog nor a session is there, the start ends with the error of the catalog check,
  which comes first, not with a configuration error, and the state is the initial one:
  no call has been made. Where the catalog is there, the start does end with the
  configuration error, thrown to its caller, and again the run has made no call: the
  error callback of the host has not been called.
\<close>

theorem start_configuration_error_counterexample:
  "jsget (config example_props_no_catalog) ''environment'' = JUndefined
   \<and> start (spec_helpers example_component) example_props_no_catalog ''card'' init_world
       = (Inl NoPaymentMethodsError, init_world)
   \<and> jsget (config example_props_no_environment) ''environment'' = JUndefined
   \<and> calls_since init_world
        (snd (start (spec_helpers example_component) example_props_no_environment ''card''
               init_world)) = []"
proof -
  have 1: "jsget (config example_props_no_catalog) ''environment'' = JUndefined"
    by (simp add: example_props_no_catalog_def example_props_no_environment_def
          example_config_no_environment_def jsget_def)
  have 2: "contextPaymentMethods example_props_no_catalog init_world = None"
    by (simp add: contextPaymentMethods_def example_props_no_catalog_def init_world_def)
  have 3: "start (spec_helpers example_component) example_props_no_catalog ''card'' init_world
          = (Inl NoPaymentMethodsError, init_world)"
    by (simp add: start_def Let_def removeEventListeners_init_world 2 spec_helpers_def
          checkPaymentMethodsResponse_spec_def)
  have 4: "jsget (config example_props_no_environment) ''environment'' = JUndefined"
    by (simp add: example_props_no_environment_def example_config_no_environment_def jsget_def)
  have 5: "calls_since init_world
        (snd (start (spec_helpers example_component) example_props_no_environment ''card''
               init_world)) = []"
    by (simp add: example_no_environment_start calls_since_def)
  from 1 3 4 5 show ?thesis by simp
qed

section \<open>Successive starts\<close>

text \<open>
  Claim C2. Take two successive calls of \<open>start\<close>, from a state in which the listeners
  of the component are the ones it holds (as when it is mounted). The first calls of each
  run release the subscriptions held before it, and once the second run has made them no
  listener is registered. After the second run no subscription of the first set is
  registered, only subscriptions of the current set can be, and a submit event has at
  most one handler. When the second start goes through, the set it created
  is registered as a whole and is not empty, and a submit event has exactly one handler.
\<close>

theorem start_twice_one_subscription_set:
  assumes "tracked w0"
      and "start H P1 t1 w0 = (r1, w1)"
      and "start H P2 t2 w1 = (r2, w2)"
  shows "take (length (subscriptions w0)) (calls_since w0 w1) =
           map (\<lambda>s. Remove (sid s)) (subscriptions w0)
       \<and> take (length (subscriptions w1)) (calls_since w1 w2) =
           map (\<lambda>s. Remove (sid s)) (subscriptions w1)
       \<and> emitter (removeEventListeners w1) = []
       \<and> set (subscriptions w1) \<inter> set (emitter w2) = {}
       \<and> set (emitter w2) \<subseteq> set (subscriptions w2)
       \<and> length (handlers_for (SubmitEvent r) w2) \<le> 1
       \<and> (r2 = Inr () \<longrightarrow> emitter w2 = subscriptions w2 \<and> subscriptions w2 \<noteq> []
             \<and> length (handlers_for (SubmitEvent r) w2) = 1)"
proof -
  from start_tracked [OF assms(1,2)] have t1: "tracked w1" by simp
  note s2 = start_tracked [OF t1 assms(3)]
  have old: "\<forall>s \<in> set (subscriptions w1). sid s < nextId w1"
    using t1 by (simp add: tracked_def)
  note pre0 = start_releases_first [OF assms(2)]
  note pre = start_releases_first [OF assms(3)]
  have dis: "set (subscriptions w1) \<inter> set (emitter w2) = {}"
  proof (cases "r2 = Inr ()")
    case True
    with s2 have "\<forall>s \<in> set (emitter w2). nextId w1 \<le> sid s" by simp
    with old show ?thesis by fastforce
  next
    case False
    with s2 show ?thesis by simp
  qed
  have sub: "set (emitter w2) \<subseteq> set (subscriptions w2)"
    using s2 by (simp add: tracked_def)
  have ex: "r2 = Inr () \<longrightarrow> emitter w2 = subscriptions w2 \<and> subscriptions w2 \<noteq> []
             \<and> length (handlers_for (SubmitEvent r) w2) = 1"
  proof
    assume "r2 = Inr ()"
    with s2 have "emitter w2 = subscriptions w2" "subscriptions w2 \<noteq> []"
      "length (filter (\<lambda>s. eventType s = Event_onSubmit) (emitter w2)) = 1"
      by auto
    then show "emitter w2 = subscriptions w2 \<and> subscriptions w2 \<noteq> []
             \<and> length (handlers_for (SubmitEvent r) w2) = 1"
      unfolding handlers_for_def by simp
  qed
  have one: "length (handlers_for (SubmitEvent r) w2) \<le> 1"
  proof (cases "r2 = Inr ()")
    case True
    with ex show ?thesis by simp
  next
    case False
    with s2 have "emitter w2 = []" by simp
    then show ?thesis by (simp add: handlers_for_def)
  qed
  note rel = removeEventListeners_tracked [OF t1]
  from pre0 pre rel dis sub one ex show ?thesis by blast
qed

text \<open>
  Two starts of the example component from the initial state.
\<close>

theorem start_twice_one_subscription_set_witness:
  "tracked init_world
   \<and> fst (start (spec_helpers example_component) example_props ''ideal'' example_started) = Inr ()
   \<and> set (subscriptions example_started) \<inter> set (emitter example_restarted) = {}
   \<and> emitter example_restarted = subscriptions example_restarted
   \<and> subscriptions example_restarted \<noteq> []
   \<and> length (handlers_for (SubmitEvent example_response) example_restarted) = 1"
proof -
  have r: "fst (start (spec_helpers example_component) example_props ''ideal'' example_started)
             = Inr ()"
    by (simp add: example_restart)
  from start_twice_one_subscription_set
         [OF tracked_init_world example_start example_restart, of example_response]
       tracked_init_world r
  show ?thesis by blast
qed

section \<open>Single method or full list\<close>

text \<open>
  Claim C3. Take a start that passes the catalog check and the validation of the
  configuration, and whose component lookup returns the record that the resolver finds.
  If the resolver finds a record, the run invokes native open once, with a catalog whose
  list is exactly that record and a configuration whose \<^verbatim>\<open>dropin\<close> is
  \<^verbatim>\<open>{skipListWhenSinglePaymentMethod: true}\<close>. If it finds none, the run invokes native
  open once, with the effective catalog and the configuration as supplied.
\<close>

theorem start_open_mode:
  assumes "checkPaymentMethodsResponse H (contextPaymentMethods P w) = Inr cur"
      and "getNativeComponent H t cur = Inr (nc, find_pm cur t)"
      and "checkConfiguration H (config P) = Inr ()"
  shows "(\<forall>pm. find_pm cur t = Some pm \<longrightarrow>
            filter is_Open (calls_since w (snd (start H P t w))) =
              [Open nc (singlePaymentMethods pm) (singlePaymentConfig (config P))]
          \<and> paymentMethods (singlePaymentMethods pm) = [pm]
          \<and> jsget (singlePaymentConfig (config P)) ''dropin'' =
              JObj [(''skipListWhenSinglePaymentMethod'', JBool True)])
       \<and> (find_pm cur t = None \<longrightarrow>
            filter is_Open (calls_since w (snd (start H P t w))) = [Open nc cur (config P)])"
  by (simp add: start_preflight_calls [OF assms] singlePaymentMethods_def
        singlePaymentConfig_def jsget_spread_with)

text \<open>
  A catalog with \<^verbatim>\<open>ideal\<close> and \<^verbatim>\<open>scheme\<close>: the request \<^verbatim>\<open>card\<close> opens the scheme
  record alone, the request \<^verbatim>\<open>unknown_type\<close> opens the whole catalog.
\<close>

theorem start_open_mode_witness:
  "filter is_Open (calls_since init_world
      (snd (start (spec_helpers example_component) example_props ''card'' init_world))) =
     [Open example_component \<lparr>paymentMethods = [scheme_record], otherFields = []\<rparr>
        (singlePaymentConfig example_config)]
   \<and> jsget (singlePaymentConfig example_config) ''dropin'' =
       JObj [(''skipListWhenSinglePaymentMethod'', JBool True)]
   \<and> filter is_Open (calls_since init_world
        (snd (start (spec_helpers example_component) example_props ''unknown_type'' init_world))) =
       [Open example_component example_catalog example_config]"
  using start_open_mode [OF example_check_catalog example_component_lookup
          example_check_configuration, of "''card''" init_world]
        start_open_mode [OF example_check_catalog example_component_lookup
          example_check_configuration, of "''unknown_type''" init_world]
  by (simp add: example_find singlePaymentMethods_def example_props_def)

section \<open>The payment method lookup\<close>

text \<open>
  Claim C4. For every catalog, \<open>find\<close> with the name \<^verbatim>\<open>card\<close> returns a record of type
  \<^verbatim>\<open>scheme\<close> whenever the catalog has one, and never a record whose type is the
  string \<^verbatim>\<open>card\<close>. For every other name, what \<open>find\<close> returns is a record of the catalog
  whose type equals the name, and it returns absence exactly when the catalog has no
  such record. The function is total: absence is a value, there is no failure.
\<close>


theorem find_pm_resolves:
  "((\<exists>pm \<in> set (paymentMethods c). jsget pm ''type'' = JStr ''scheme'') \<longrightarrow>
      (\<exists>r. find_pm c ''card'' = Some r \<and> r \<in> set (paymentMethods c)
           \<and> jsget r ''type'' = JStr ''scheme''))
   \<and> (\<forall>r. find_pm c ''card'' = Some r \<longrightarrow> jsget r ''type'' \<noteq> JStr ''card'')
   \<and> (t \<noteq> ''card'' \<longrightarrow>
        (\<forall>r. find_pm c t = Some r \<longrightarrow> r \<in> set (paymentMethods c) \<and> jsget r ''type'' = JStr t)
      \<and> ((find_pm c t = None) = (\<forall>pm \<in> set (paymentMethods c). jsget pm ''type'' \<noteq> JStr t)))"
proof (intro conjI impI allI)
  assume "\<exists>pm \<in> set (paymentMethods c). jsget pm ''type'' = JStr ''scheme''"
  then have "find_pm c ''card'' \<noteq> None"
    by (simp add: find_pm_None mapCreatedComponentType_def)
  then obtain r where r: "find_pm c ''card'' = Some r" by blast
  from find_pm_Some [OF r] r
  show "\<exists>r. find_pm c ''card'' = Some r \<and> r \<in> set (paymentMethods c)
           \<and> jsget r ''type'' = JStr ''scheme''"
    by (simp add: mapCreatedComponentType_def)
next
  fix r assume "find_pm c ''card'' = Some r"
  from find_pm_Some [OF this] show "jsget r ''type'' \<noteq> JStr ''card''"
    by (simp add: mapCreatedComponentType_def)
next
  fix r assume "t \<noteq> ''card''" and "find_pm c t = Some r"
  from find_pm_Some [OF this(2)] this(1)
  show "r \<in> set (paymentMethods c)" and "jsget r ''type'' = JStr t"
    by (simp_all add: mapCreatedComponentType_def)
next
  assume "t \<noteq> ''card''"
  then show "(find_pm c t = None) = (\<forall>pm \<in> set (paymentMethods c). jsget pm ''type'' \<noteq> JStr t)"
    by (simp add: find_pm_None mapCreatedComponentType_def)
qed

text \<open>
  In the example catalog \<^verbatim>\<open>card\<close> resolves to the scheme record, \<^verbatim>\<open>ideal\<close> to the
  ideal record and \<^verbatim>\<open>unknown_type\<close> to nothing.
\<close>

theorem find_pm_resolves_witness:
  "find_pm example_catalog ''card'' = Some scheme_record
   \<and> find_pm example_catalog ''ideal'' = Some ideal_record
   \<and> find_pm example_catalog ''unknown_type'' = None"
  using find_pm_resolves [of example_catalog "''ideal''"]
    find_pm_resolves [of example_catalog "''unknown_type''"]
  by (simp add: example_find)

section \<open>Detaching the listeners\<close>

text \<open>
  Claim C5, as amended. Each call of \<open>removeEventListeners\<close> calls \<^verbatim>\<open>remove()\<close> once
  on every subscription held in \<^verbatim>\<open>subscriptions.current\<close>, in order, and leaves the
  held subscriptions as they are. So a second call in a row calls \<^verbatim>\<open>remove()\<close> on each
  of them again, and leaves the listeners registered with the emitter as the first call
  left them. With no subscription held, the call changes nothing.
\<close>

theorem removeEventListeners_calls:
  "calls_since w (removeEventListeners w) = map (\<lambda>s. Remove (sid s)) (subscriptions w)
   \<and> subscriptions (removeEventListeners w) = subscriptions w
   \<and> calls_since w (removeEventListeners (removeEventListeners w)) =
       map (\<lambda>s. Remove (sid s)) (subscriptions w) @ map (\<lambda>s. Remove (sid s)) (subscriptions w)
   \<and> emitter (removeEventListeners (removeEventListeners w)) = emitter (removeEventListeners w)
   \<and> (subscriptions w = [] \<longrightarrow> removeEventListeners w = w)"
proof -
  have 1: "calls_since w (removeEventListeners w) = map (\<lambda>s. Remove (sid s)) (subscriptions w)"
    by (rule calls_since_append) (simp add: removeEventListeners_eq)
  have 2: "calls_since w (removeEventListeners (removeEventListeners w)) =
       map (\<lambda>s. Remove (sid s)) (subscriptions w) @ map (\<lambda>s. Remove (sid s)) (subscriptions w)"
    by (rule calls_since_append) (simp add: removeEventListeners_eq)
  have 3: "emitter (removeEventListeners (removeEventListeners w)) = emitter (removeEventListeners w)"
    by (simp add: removeEventListeners_eq)
  have 4: "subscriptions w = [] \<longrightarrow> removeEventListeners w = w"
    by (simp add: removeEventListeners_eq)
  from 1 2 3 4 show ?thesis by (simp add: removeEventListeners_eq)
qed

text \<open>
  In the initial state no subscription is held, and detaching makes no call.
\<close>

theorem removeEventListeners_calls_witness:
  "subscriptions init_world = [] \<and> removeEventListeners init_world = init_world
   \<and> calls_since init_world (removeEventListeners init_world) = []"
  using removeEventListeners_calls [of init_world]
  by (simp add: init_world_def)

text \<open>
  Claim C5 as stated fails after a start: the component holds the subscriptions 0, 1 and
  2, and two calls of \<open>removeEventListeners\<close> in a row call \<^verbatim>\<open>remove()\<close> on subscription
  0 twice, not once.
\<close>

theorem removeEventListeners_twice_counterexample:
  "map sid (subscriptions example_started) = [0, 1, 2]
   \<and> count_list (calls_since example_started
         (removeEventListeners (removeEventListeners example_started))) (Remove 0) = 2"
proof -
  have "trace (removeEventListeners (removeEventListeners example_started)) =
          trace example_started
          @ map Remove (map sid (subscriptions example_started))
          @ map Remove (map sid (subscriptions example_started))"
    by (simp add: removeEventListeners_eq)
  then have "calls_since example_started
               (removeEventListeners (removeEventListeners example_started)) =
             map Remove (map sid (subscriptions example_started))
             @ map Remove (map sid (subscriptions example_started))"
    by (rule calls_since_append)
  then show ?thesis by (simp add: example_started_subscriptions)
qed

section \<open>Error events\<close>

text \<open>
  Claim C6. When the error listener receives an error whose code is
  \<^verbatim>\<open>canceledByShopper\<close>, it calls \<^verbatim>\<open>hide(false)\<close> on the native module and then the
  error callback of the host; for any other error it calls the error callback alone. In
  both cases the callback gets the error and the native module.
\<close>

theorem errorListener_calls:
  "calls_since w (errorListener nc e w) =
     (if errorCode e = ''canceledByShopper''
      then [Hide nc False, HostError e (Component nc)]
      else [HostError e (Component nc)])"
  by (rule calls_since_append) (simp add: errorListener_def call_def)

text \<open>
  A cancellation by the shopper.
\<close>

theorem errorListener_calls_witness:
  "errorCode example_error = ''canceledByShopper''
   \<and> calls_since init_world (errorListener example_component example_error init_world) =
       [Hide example_component False, HostError example_error (Component example_component)]"
  using errorListener_calls [of init_world example_component example_error]
  by (simp add: example_error_def)

section \<open>Session creation\<close>

text \<open>
  Claim C7. When the promise of the session helper rejects with a value \<open>e\<close>, the run of
  \<open>createSession\<close> has called the session helper once and then the error callback of the
  host once, with the error code \<^verbatim>\<open>sessionError\<close>, the message
  \<^verbatim>\<open>JSON.stringify(e)\<close> and the session helper, not a native module, as the origin.
  Nothing else happens: there is no second attempt and no state is changed.
\<close>

theorem createSession_rejected:
  "createSession stringify P (Inl e) w =
     w\<lparr>trace := trace w @
         [CreateSession (session P) (config P),
          HostError \<lparr>message = stringify e, errorCode = ''sessionError''\<rparr> SessionHelper]\<rparr>"
  by (simp add: createSession_def call_def Let_def)

text \<open>
  A rejection with \<^verbatim>\<open>{code: 500}\<close>.
\<close>

theorem createSession_rejected_witness:
  \<open>trace (createSession (\<lambda>e. if e = JObj [(''code'', JNum 500)] then ''{"code":500}'' else [])
            example_props (Inl (JObj [(''code'', JNum 500)])) init_world) =
     [CreateSession None example_config,
      HostError \<lparr>message = ''{"code":500}'', errorCode = ''sessionError''\<rparr> SessionHelper]\<close>
  using createSession_rejected
          [of "\<lambda>e. if e = JObj [(''code'', JNum 500)] then ''{\"code\":500}'' else []"
              example_props "JObj [(''code'', JNum 500)]" init_world]
  by (simp add: init_world_def example_props_def)

section \<open>Submit events\<close>

text \<open>
  Claim C8. When the submit listener receives an event, it calls \<^verbatim>\<open>hide(false)\<close> on
  the native module first and then the submit callback of the host, if the host gave one,
  with a payload, the native module and the extra data of the event. The payload has the
  fields of the payment data of the event, except that its \<^verbatim>\<open>returnUrl\<close> is the one of
  the payment data when that is neither \<^verbatim>\<open>undefined\<close> nor \<^verbatim>\<open>null\<close>, and the one of
  the configuration otherwise.
\<close>

theorem submitListener_calls:
  "\<exists>payload.
      calls_since w (submitListener P cfg nc response w) =
        (if onSubmit P
         then [Hide nc False, HostSubmit payload nc (extra response)]
         else [Hide nc False])
    \<and> jsget payload ''returnUrl'' =
        (if nullish (jsget (paymentData response) ''returnUrl'')
         then jsget cfg ''returnUrl''
         else jsget (paymentData response) ''returnUrl'')
    \<and> (\<forall>k. k \<noteq> ''returnUrl'' \<longrightarrow> jsget payload k = jsget (paymentData response) k)"
  by (rule exI [of _ "spread_with (paymentData response) ''returnUrl''
        (coalesce (jsget (paymentData response) ''returnUrl'') (jsget cfg ''returnUrl''))"])
     (auto simp: submitListener_def submitPayment_def call_def Let_def jsget_spread_with
        coalesce_def calls_since_def)

text \<open>
  Payment data without a return URL gets the one of the configuration.
\<close>

theorem submitListener_calls_witness:
  "calls_since init_world
     (submitListener example_props example_config example_component example_response init_world) =
     [Hide example_component False,
      HostSubmit [(''paymentMethod'', JObj [(''type'', JStr ''scheme'')]),
                  (''returnUrl'', JStr ''myapp://payment'')] example_component JNull]"
proof -
  from submitListener_calls
         [of init_world example_props example_config example_component example_response]
  obtain payload where
    "calls_since init_world
       (submitListener example_props example_config example_component example_response init_world)
     = (if onSubmit example_props
        then [Hide example_component False, HostSubmit payload example_component
                (extra example_response)]
        else [Hide example_component False])"
    by blast
  moreover have "calls_since init_world
       (submitListener example_props example_config example_component example_response init_world)
     = [Hide example_component False,
      HostSubmit [(''paymentMethod'', JObj [(''type'', JStr ''scheme'')]),
                  (''returnUrl'', JStr ''myapp://payment'')] example_component JNull]"
    by (rule calls_since_append)
       (simp add: submitListener_def submitPayment_def call_def Let_def example_props_def
          example_response_def example_config_def jsget_def coalesce_def nullish_def
          spread_with_def)
  ultimately show ?thesis by simp
qed

section \<open>The view state of the instant fragment\<close>

text \<open>
  Claim C9. For every view state delivered while the fragment has its view, \<open>onViewState\<close>
  returns, and afterwards exactly one of the error text, the progress indicator and the
  component container is visible: the error text for \<open>Error\<close>, showing its message, the
  progress indicator for \<open>Loading\<close> and the component container for \<open>ShowComponent\<close>.
\<close>

theorem onViewState_visibility:
  "\<exists>b'. onViewState (Some b) viewState = Inr b'
     \<and> length (filter id [errorView_isVisible b', progressIndicator_isVisible b',
                           componentContainer_isVisible b']) = 1
     \<and> errorView_isVisible b' = (\<exists>m. viewState = Error m)
     \<and> progressIndicator_isVisible b' = (viewState = Loading)
     \<and> componentContainer_isVisible b' = (viewState = ShowComponent)
     \<and> (\<forall>m. viewState = Error m \<longrightarrow> errorView_text b' = m)"
  by (cases viewState) (simp_all add: onViewState_def binding_def)

text \<open>
  An error replaces the progress indicator by the error text.
\<close>

theorem onViewState_visibility_witness:
  "onViewState (Some example_binding) (Error ''Payment failed'') =
     Inr \<lparr>errorView_isVisible = True, errorView_text = ''Payment failed'',
          progressIndicator_isVisible = False, componentContainer_isVisible = False\<rparr>"
  using onViewState_visibility [of example_binding "Error ''Payment failed''"]
  by (simp add: onViewState_def binding_def example_binding_def)

section \<open>The configuration of the single-method branch\<close>

text \<open>
  Claim C10. In the single-method branch the configuration passed to native open reads,
  under every key but \<^verbatim>\<open>dropin\<close>, what the supplied configuration reads, and has the
  keys of the supplied configuration and \<^verbatim>\<open>dropin\<close>. Under \<^verbatim>\<open>dropin\<close> it holds the
  object \<^verbatim>\<open>{skipListWhenSinglePaymentMethod: true}\<close> and nothing of what the host had
  put there.
\<close>

theorem start_single_config_frame:
  assumes "checkPaymentMethodsResponse H (contextPaymentMethods P w) = Inr cur"
      and "getNativeComponent H t cur = Inr (nc, Some pm)"
      and "checkConfiguration H (config P) = Inr ()"
  shows "\<exists>cfg'. filter is_Open (calls_since w (snd (start H P t w))) =
                  [Open nc (singlePaymentMethods pm) cfg']
          \<and> (\<forall>k. k \<noteq> ''dropin'' \<longrightarrow> jsget cfg' k = jsget (config P) k)
          \<and> jsget cfg' ''dropin'' = JObj [(''skipListWhenSinglePaymentMethod'', JBool True)]
          \<and> set (map fst cfg') = insert ''dropin'' (set (map fst (config P)))"
  by (rule exI [of _ "singlePaymentConfig (config P)"])
     (auto simp: start_preflight_calls [OF assms] singlePaymentConfig_def jsget_spread_with
        keys_spread_with)

text \<open>
  The example configuration has a \<^verbatim>\<open>dropin\<close> option of its own, which is gone from the
  configuration that native open gets.
\<close>

theorem start_single_config_frame_witness:
  "jsget example_config ''dropin'' = JObj [(''showPreselectedStoredPaymentMethod'', JBool False)]
   \<and> filter is_Open (calls_since init_world
        (snd (start (spec_helpers example_component) example_props ''card'' init_world))) =
       [Open example_component (singlePaymentMethods scheme_record)
          [(''clientKey'', JStr ''test_key''), (''environment'', JStr ''test''),
           (''returnUrl'', JStr ''myapp://payment''),
           (''dropin'', JObj [(''skipListWhenSinglePaymentMethod'', JBool True)])]]"
proof -
  have l: "getNativeComponent (spec_helpers example_component) ''card'' example_catalog =
             Inr (example_component, Some scheme_record)"
    by (simp add: example_component_lookup example_find)
  from start_single_config_frame [OF example_check_catalog l example_check_configuration,
         of init_world]
  obtain cfg' where
    "filter is_Open (calls_since init_world
        (snd (start (spec_helpers example_component) example_props ''card'' init_world))) =
       [Open example_component (singlePaymentMethods scheme_record) cfg']"
    by blast
  moreover have "filter is_Open (calls_since init_world
        (snd (start (spec_helpers example_component) example_props ''card'' init_world))) =
       [Open example_component (singlePaymentMethods scheme_record)
          (singlePaymentConfig (config example_props))]"
    by (simp add: start_preflight_calls [OF example_check_catalog l example_check_configuration])
  moreover have "singlePaymentConfig (config example_props) =
          [(''clientKey'', JStr ''test_key''), (''environment'', JStr ''test''),
           (''returnUrl'', JStr ''myapp://payment''),
           (''dropin'', JObj [(''skipListWhenSinglePaymentMethod'', JBool True)])]"
    by (simp add: singlePaymentConfig_def spread_with_def example_props_def example_config_def)
  moreover have "jsget example_config ''dropin'' =
          JObj [(''showPreselectedStoredPaymentMethod'', JBool False)]"
    by (simp add: example_config_def jsget_def)
  ultimately show ?thesis by simp
qed

end
